theory Spec2Isabelle
  imports Complex_Main
begin

section \<open>Numbers\<close>

text \<open>
  The program computes with JavaScript numbers. They are modelled as the real numbers
  extended by \<open>Infinity\<close>, \<open>-Infinity\<close> and \<open>NaN\<close>, with the arithmetic of the
  language on the three special values. Rounding, overflow and the sign of zero are not
  modelled: a finite operation returns the exact real result, and a division by zero
  takes the zero as positive.
\<close>

datatype number = Fin real | PInf | NInf | NaN

fun isFinite :: "number \<Rightarrow> bool" where
  "isFinite (Fin _) = True"
| "isFinite _ = False"

text \<open>The product of an infinity of sign \<open>pos\<close> with the finite number \<open>a\<close>.\<close>

definition inf_times :: "bool \<Rightarrow> real \<Rightarrow> number" where
  "inf_times pos a =
     (if a = 0 then NaN else if (0 < a) = pos then PInf else NInf)"

instantiation number :: "{plus, minus, uminus, times, inverse, ord}"
begin

fun uminus_number :: "number \<Rightarrow> number" where
  "uminus_number (Fin a) = Fin (- a)"
| "uminus_number PInf = NInf"
| "uminus_number NInf = PInf"
| "uminus_number NaN = NaN"

fun plus_number :: "number \<Rightarrow> number \<Rightarrow> number" where
  "plus_number (Fin a) (Fin b) = Fin (a + b)"
| "plus_number NaN _ = NaN"
| "plus_number _ NaN = NaN"
| "plus_number PInf NInf = NaN"
| "plus_number NInf PInf = NaN"
| "plus_number PInf _ = PInf"
| "plus_number _ PInf = PInf"
| "plus_number NInf _ = NInf"
| "plus_number _ NInf = NInf"

definition minus_number :: "number \<Rightarrow> number \<Rightarrow> number" where
  "minus_number a b = a + (- b)"

fun times_number :: "number \<Rightarrow> number \<Rightarrow> number" where
  "times_number (Fin a) (Fin b) = Fin (a * b)"
| "times_number NaN _ = NaN"
| "times_number _ NaN = NaN"
| "times_number (Fin a) PInf = inf_times True a"
| "times_number (Fin a) NInf = inf_times False a"
| "times_number PInf (Fin b) = inf_times True b"
| "times_number NInf (Fin b) = inf_times False b"
| "times_number PInf PInf = PInf"
| "times_number NInf NInf = PInf"
| "times_number PInf NInf = NInf"
| "times_number NInf PInf = NInf"

fun divide_number :: "number \<Rightarrow> number \<Rightarrow> number" where
  "divide_number (Fin a) (Fin b) = (if b = 0 then inf_times True a else Fin (a / b))"
| "divide_number NaN _ = NaN"
| "divide_number _ NaN = NaN"
| "divide_number (Fin a) _ = Fin 0"
| "divide_number PInf (Fin b) = (if 0 \<le> b then PInf else NInf)"
| "divide_number NInf (Fin b) = (if 0 \<le> b then NInf else PInf)"
| "divide_number _ _ = NaN"

definition inverse_number :: "number \<Rightarrow> number" where
  "inverse_number a = divide (Fin 1) a"

fun less_number :: "number \<Rightarrow> number \<Rightarrow> bool" where
  "less_number (Fin a) (Fin b) = (a < b)"
| "less_number NaN _ = False"
| "less_number _ NaN = False"
| "less_number _ NInf = False"
| "less_number PInf _ = False"
| "less_number _ _ = True"

fun less_eq_number :: "number \<Rightarrow> number \<Rightarrow> bool" where
  "less_eq_number (Fin a) (Fin b) = (a \<le> b)"
| "less_eq_number NaN _ = False"
| "less_eq_number _ NaN = False"
| "less_eq_number NInf _ = True"
| "less_eq_number _ PInf = True"
| "less_eq_number _ _ = False"

instance ..

end

text \<open>Strict equality \<open>===\<close> on numbers: \<open>NaN\<close> is equal to nothing.\<close>

definition strict_eq :: "number \<Rightarrow> number \<Rightarrow> bool" where
  "strict_eq a b \<longleftrightarrow> a \<noteq> NaN \<and> a = b"

text \<open>\<open>Math.sqrt\<close>, and \<open>a ** 2\<close> (which is \<open>Math.pow(a, 2)\<close>).\<close>

fun js_sqrt :: "number \<Rightarrow> number" where
  "js_sqrt (Fin a) = (if a < 0 then NaN else Fin (sqrt a))"
| "js_sqrt PInf = PInf"
| "js_sqrt NInf = NaN"
| "js_sqrt NaN = NaN"

fun pow2 :: "number \<Rightarrow> number" where
  "pow2 (Fin a) = Fin (a\<^sup>2)"
| "pow2 PInf = PInf"
| "pow2 NInf = PInf"
| "pow2 NaN = NaN"

section \<open>Data\<close>

text \<open>
  \<open>Point2D = {x, y}\<close>, \<open>Point3D = {z} & Point2D\<close>, \<open>Site = {weight} & Point2D\<close> and
  \<open>Plane = {a, b, c, d}\<close>. The fields carry a prefix, so that the letters stay free
  for variables.
\<close>

record Point2D =
  p_x :: number
  p_y :: number

record Point3D = Point2D +
  p_z :: number

record Site = Point2D +
  weight :: number

record Plane =
  pl_a :: number
  pl_b :: number
  pl_c :: number
  pl_d :: number

text \<open>
  What the program can throw: a \<open>TypeError\<close> on reading a property of \<open>undefined\<close>,
  and whatever the convex hull routine throws.
\<close>

datatype error = TypeError | HullError

section \<open>Sutherland-Hodgman clipping (poly_clip.ts)\<close>

definition inside :: "Point2D \<Rightarrow> Point2D \<Rightarrow> Point2D \<Rightarrow> bool" where
  "inside p edgeStart edgeEnd \<longleftrightarrow>
     (p_x edgeEnd - p_x edgeStart) * (p_y p - p_y edgeStart)
       > (p_y edgeEnd - p_y edgeStart) * (p_x p - p_x edgeStart)"

text \<open>The denominator \<open>denom\<close> of \<open>computeIntersection\<close>.\<close>

definition intersection_denom :: "Point2D \<Rightarrow> Point2D \<Rightarrow> Point2D \<Rightarrow> Point2D \<Rightarrow> number" where
  "intersection_denom start endp edgeStart edgeEnd =
     (let dx = p_x endp - p_x start;
          dy = p_y endp - p_y start;
          edgeDx = p_x edgeEnd - p_x edgeStart;
          edgeDy = p_y edgeEnd - p_y edgeStart
      in dx * edgeDy - dy * edgeDx)"

definition computeIntersection :: "Point2D \<Rightarrow> Point2D \<Rightarrow> Point2D \<Rightarrow> Point2D \<Rightarrow> Point2D" where
  "computeIntersection start endp edgeStart edgeEnd =
     (let dx = p_x endp - p_x start;
          dy = p_y endp - p_y start;
          edgeDx = p_x edgeEnd - p_x edgeStart;
          edgeDy = p_y edgeEnd - p_y edgeStart;
          denom = intersection_denom start endp edgeStart edgeEnd
      in if strict_eq denom (Fin 0) then \<lparr>p_x = Fin 0, p_y = Fin 0\<rparr>
         else
           let t = ((p_x start - p_x edgeStart) * edgeDy - (p_y start - p_y edgeStart) * edgeDx) / denom
           in \<lparr>p_x = p_x start + t * dx, p_y = p_y start + t * dy\<rparr>)"

text \<open>
  The body of the inner loop for one subject edge from \<open>S\<close> to \<open>E\<close>: the points it pushes
  onto the output list, in order.
\<close>

definition clip_pushed :: "Point2D \<Rightarrow> Point2D \<Rightarrow> Point2D \<Rightarrow> Point2D \<Rightarrow> Point2D list" where
  "clip_pushed edgeStart edgeEnd S E =
     (if inside E edgeStart edgeEnd then
        (if \<not> inside S edgeStart edgeEnd then [computeIntersection S E edgeStart edgeEnd] else [])
          @ [E]
      else if inside S edgeStart edgeEnd then [computeIntersection S E edgeStart edgeEnd]
      else [])"

text \<open>The inner loop \<open>for (const E of inputList)\<close>, with \<open>S\<close> and the output list as its state.\<close>

fun clip_edge :: "Point2D \<Rightarrow> Point2D \<Rightarrow> Point2D \<Rightarrow> Point2D list \<Rightarrow> Point2D list \<Rightarrow> Point2D list" where
  "clip_edge edgeStart edgeEnd S [] outputList = outputList"
| "clip_edge edgeStart edgeEnd S (E # rest) outputList =
     clip_edge edgeStart edgeEnd E rest (outputList @ clip_pushed edgeStart edgeEnd S E)"

text \<open>
  One pass of the outer loop. On an empty input list \<open>S\<close> is \<open>undefined\<close> in the source
  and is never read, since the inner loop has nothing to visit.
\<close>

definition clip_pass :: "Point2D \<Rightarrow> Point2D \<Rightarrow> Point2D list \<Rightarrow> Point2D list" where
  "clip_pass edgeStart edgeEnd inputList =
     (case inputList of
        [] \<Rightarrow> []
      | _ # _ \<Rightarrow> clip_edge edgeStart edgeEnd (last inputList) inputList [])"

function clip_loop :: "Point2D list \<Rightarrow> nat \<Rightarrow> Point2D list \<Rightarrow> Point2D list" where
  "clip_loop clippingBoundary i outputList =
     (if i < length clippingBoundary then
        clip_loop clippingBoundary (i + 1)
          (clip_pass (clippingBoundary ! i)
             (clippingBoundary ! ((i + 1) mod length clippingBoundary)) outputList)
      else outputList)"
  by pat_completeness auto
termination
  by (relation "measure (\<lambda>(clippingBoundary, i, outputList). length clippingBoundary - i)") auto

definition clipPolygon :: "Point2D list \<Rightarrow> Point2D list \<Rightarrow> Point2D list" where
  "clipPolygon polygon clippingBoundary = clip_loop clippingBoundary 0 polygon"

subsection \<open>The same function on a store of arrays\<close>

text \<open>
  To speak about what \<open>clipPolygon\<close> writes, arrays live in a store: an array variable
  holds an address, \<open>[]\<close> allocates a new array, and \<open>push\<close> changes the array at an
  address. Point objects are only read by the function (no field is ever assigned), so
  they stay values. The loops read the length and the elements of their array from the
  store at every step, as the source does; a result of \<open>None\<close> stands for a loop that
  does not end.
\<close>

record store =
  arrays :: "nat \<Rightarrow> Point2D list"
  fresh :: nat

definition alloc_array :: "store \<Rightarrow> nat \<times> store" where
  "alloc_array s = (fresh s, s\<lparr>arrays := (arrays s)(fresh s := []), fresh := Suc (fresh s)\<rparr>)"

definition push :: "nat \<Rightarrow> Point2D \<Rightarrow> store \<Rightarrow> store" where
  "push r p s = s\<lparr>arrays := (arrays s)(r := arrays s r @ [p])\<rparr>"

partial_function (option) clip_edge_st ::
  "Point2D \<Rightarrow> Point2D \<Rightarrow> nat \<Rightarrow> nat \<Rightarrow> Point2D \<Rightarrow> nat \<Rightarrow> store \<Rightarrow> store option" where
  "clip_edge_st edgeStart edgeEnd inputList outputList S j s =
     (if j < length (arrays s inputList) then
        (let E = arrays s inputList ! j
         in clip_edge_st edgeStart edgeEnd inputList outputList E (j + 1)
              (fold (push outputList) (clip_pushed edgeStart edgeEnd S E) s))
      else Some s)"

definition clip_pass_st :: "Point2D \<Rightarrow> Point2D \<Rightarrow> nat \<Rightarrow> store \<Rightarrow> (nat \<times> store) option" where
  "clip_pass_st edgeStart edgeEnd inputList s =
     (let (outputList, s1) = alloc_array s
      in case arrays s1 inputList of
           [] \<Rightarrow> Some (outputList, s1)
         | _ # _ \<Rightarrow>
             map_option (Pair outputList)
               (clip_edge_st edgeStart edgeEnd inputList outputList
                  (last (arrays s1 inputList)) 0 s1))"

partial_function (option) clip_loop_st ::
  "nat \<Rightarrow> nat \<Rightarrow> nat \<Rightarrow> store \<Rightarrow> (nat \<times> store) option" where
  "clip_loop_st clippingBoundary i outputList s =
     (if i < length (arrays s clippingBoundary) then
        Option.bind
          (clip_pass_st (arrays s clippingBoundary ! i)
             (arrays s clippingBoundary ! ((i + 1) mod length (arrays s clippingBoundary)))
             outputList s)
          (\<lambda>(outputList', s'). clip_loop_st clippingBoundary (i + 1) outputList' s')
      else Some (outputList, s))"

definition clipPolygon_st :: "nat \<Rightarrow> nat \<Rightarrow> store \<Rightarrow> (nat \<times> store) option" where
  "clipPolygon_st polygon clippingBoundary s = clip_loop_st clippingBoundary 0 polygon s"

subsection \<open>The region of a convex clip polygon\<close>

text \<open>
  A point is inside or on the boundary of a convex polygon when it is on the inner side
  of, or on, the line of every edge. The inner side is the one \<open>inside\<close> tests for (the
  left of the directed edge), so the polygon is taken in the winding order the clip
  function expects.
\<close>

definition on_or_inside :: "Point2D \<Rightarrow> Point2D \<Rightarrow> Point2D \<Rightarrow> bool" where
  "on_or_inside p edgeStart edgeEnd \<longleftrightarrow>
     (p_x edgeEnd - p_x edgeStart) * (p_y p - p_y edgeStart)
       \<ge> (p_y edgeEnd - p_y edgeStart) * (p_x p - p_x edgeStart)"

definition within_polygon :: "Point2D \<Rightarrow> Point2D list \<Rightarrow> bool" where
  "within_polygon p clip \<longleftrightarrow>
     list_all (\<lambda>i. on_or_inside p (clip ! i) (clip ! ((i + 1) mod length clip)))
       [0..<length clip]"

text \<open>A point on the line of an edge, and the mirror image of a point \<open>P\<close> at a point \<open>S\<close>.\<close>

definition on_line :: "Point2D \<Rightarrow> Point2D \<Rightarrow> Point2D \<Rightarrow> bool" where
  "on_line p edgeStart edgeEnd \<longleftrightarrow>
     strict_eq ((p_x edgeEnd - p_x edgeStart) * (p_y p - p_y edgeStart))
       ((p_y edgeEnd - p_y edgeStart) * (p_x p - p_x edgeStart))"

definition mirror_at :: "Point2D \<Rightarrow> Point2D \<Rightarrow> Point2D" where
  "mirror_at S P = \<lparr>p_x = Fin 2 * p_x S - p_x P, p_y = Fin 2 * p_y S - p_y P\<rparr>"

section \<open>Power diagram by lifting (module power_diagram)\<close>

definition transformSiteToDualSpace :: "Site \<Rightarrow> Point3D" where
  "transformSiteToDualSpace site =
     (let r = js_sqrt (weight site)
      in \<lparr>p_x = p_x site, p_y = p_y site, p_z = pow2 (p_x site) + pow2 (p_y site) - pow2 r\<rparr>)"

definition delta :: "Plane \<Rightarrow> Point3D" where
  "delta plane = \<lparr>p_x = pl_a plane / Fin 2, p_y = pl_b plane / Fin 2, p_z = - pl_c plane\<rparr>"

definition computeNormal :: "Point3D \<Rightarrow> Point3D \<Rightarrow> Point3D \<Rightarrow> Point3D" where
  "computeNormal p1 p2 p3 =
     (let v1 = p_x p2 - p_x p1;
          v2 = p_y p2 - p_y p1;
          v3 = p_z p2 - p_z p1;
          w1 = p_x p3 - p_x p1;
          w2 = p_y p3 - p_y p1;
          w3 = p_z p3 - p_z p1;
          nx = v2 * w3 - v3 * w2;
          ny = v3 * w1 - v1 * w3;
          nz = v1 * w2 - v2 * w1
      in \<lparr>p_x = nx, p_y = ny, p_z = nz\<rparr>)"

definition mapTo2D :: "Point3D \<Rightarrow> Point2D" where
  "mapTo2D point = \<lparr>p_x = p_x point, p_y = p_y point\<rparr>"

definition plane_gamma :: "Point3D \<Rightarrow> Point3D \<Rightarrow> Point3D \<Rightarrow> number" where
  "plane_gamma P1 P2 P3 =
     p_x P1 * (p_y P2 - p_y P3) + p_x P2 * (p_y P3 - p_y P1) + p_x P3 * (p_y P1 - p_y P2)"

definition calculatePlaneCoefficients :: "Point3D \<Rightarrow> Point3D \<Rightarrow> Point3D \<Rightarrow> Plane" where
  "calculatePlaneCoefficients P1 P2 P3 =
     (let alpha = p_y P1 * (p_z P2 - p_z P3) + p_y P2 * (p_z P3 - p_z P1) + p_y P3 * (p_z P1 - p_z P2);
          beta = p_z P1 * (p_x P2 - p_x P3) + p_z P2 * (p_x P3 - p_x P1) + p_z P3 * (p_x P1 - p_x P2);
          gamma = plane_gamma P1 P2 P3;
          delta = p_x P1 * (p_y P2 * p_z P3 - p_y P3 * p_z P2)
                + p_x P2 * (p_y P3 * p_z P1 - p_y P1 * p_z P3)
                + p_x P3 * (p_y P1 * p_z P2 - p_y P2 * p_z P1)
      in \<lparr>pl_a = - alpha / gamma, pl_b = - beta / gamma, pl_c = delta / gamma, pl_d = delta / gamma\<rparr>)"

text \<open>
  \<open>Array.prototype.map\<close> and \<open>filter\<close> with a callback that may throw: the elements
  are visited in order and the first exception ends the call.
\<close>

fun try_map :: "('a \<Rightarrow> error + 'b) \<Rightarrow> 'a list \<Rightarrow> error + 'b list" where
  "try_map g [] = Inr []"
| "try_map g (v # vs) =
     (case g v of
        Inl e \<Rightarrow> Inl e
      | Inr w \<Rightarrow> (case try_map g vs of Inl e \<Rightarrow> Inl e | Inr ws \<Rightarrow> Inr (w # ws)))"

fun try_filter :: "('a \<Rightarrow> error + bool) \<Rightarrow> 'a list \<Rightarrow> error + 'a list" where
  "try_filter g [] = Inr []"
| "try_filter g (v # vs) =
     (case g v of
        Inl e \<Rightarrow> Inl e
      | Inr keep \<Rightarrow>
          (case try_filter g vs of
             Inl e \<Rightarrow> Inl e
           | Inr kept \<Rightarrow> Inr (if keep then v # kept else kept)))"

text \<open>
  A hull face is a list of indices into the lifted points; \<open>f.map(i => dualPoints[i])\<close>
  gives \<open>undefined\<close> (\<open>None\<close>) for an index out of range.
\<close>

type_synonym face = "Point3D option list"

definition face_points :: "Point3D list \<Rightarrow> nat list \<Rightarrow> face" where
  "face_points dualPoints f =
     map (\<lambda>i. if i < length dualPoints then Some (dualPoints ! i) else None) f"

text \<open>
  \<open>computeNormal(...f)\<close>: the first three entries of the face are the arguments; a
  missing or \<open>undefined\<close> one makes the property read throw.
\<close>

fun face_normal :: "face \<Rightarrow> error + Point3D" where
  "face_normal (Some p1 # Some p2 # Some p3 # _) = Inr (computeNormal p1 p2 p3)"
| "face_normal _ = Inl TypeError"

text \<open>\<open>hull_triangles.filter(f => computeNormal(...f).z < 0)\<close>\<close>

definition lower_faces :: "face list \<Rightarrow> error + face list" where
  "lower_faces hull_triangles =
     try_filter (\<lambda>f. case face_normal f of Inl e \<Rightarrow> Inl e | Inr n \<Rightarrow> Inr (p_z n < Fin 0))
       hull_triangles"

text \<open>\<open>f.some(p => p.x === site.x && p.y === site.y)\<close>\<close>

fun face_has_site :: "Site \<Rightarrow> face \<Rightarrow> error + bool" where
  "face_has_site site [] = Inr False"
| "face_has_site site (None # ps) = Inl TypeError"
| "face_has_site site (Some p # ps) =
     (if strict_eq (p_x p) (p_x site) \<and> strict_eq (p_y p) (p_y site) then Inr True
      else face_has_site site ps)"

text \<open>
  The vertex one face contributes to a cell:
  \<open>([p1, p2, p3]) => delta(calculatePlaneCoefficients(p1, p2, p3))\<close>, then \<open>mapTo2D\<close>.
\<close>

fun face_vertex :: "face \<Rightarrow> error + Point2D" where
  "face_vertex (Some p1 # Some p2 # Some p3 # _) =
     Inr (mapTo2D (delta (calculatePlaneCoefficients p1 p2 p3)))"
| "face_vertex _ = Inl TypeError"

text \<open>The body of the loop over the sites: the polygon pushed for one site.\<close>

definition site_points :: "face list \<Rightarrow> Site \<Rightarrow> error + Point2D list" where
  "site_points lower site =
     (case try_filter (face_has_site site) lower of
        Inl e \<Rightarrow> Inl e
      | Inr relevantFaces \<Rightarrow> try_map face_vertex relevantFaces)"

fun cells_loop :: "face list \<Rightarrow> Site list \<Rightarrow> Point2D list list \<Rightarrow> error + Point2D list list" where
  "cells_loop lower [] cells = Inr cells"
| "cells_loop lower (site # rest) cells =
     (case site_points lower site of
        Inl e \<Rightarrow> Inl e
      | Inr points \<Rightarrow> cells_loop lower rest (cells @ [points]))"

text \<open>
  The hull routine \<open>qh\<close> (quickhull3d) is not part of the program; it is a parameter
  that takes the coordinate triples and returns the faces as index lists, or throws.
  The \<open>console.log\<close> of the loop has no effect on the result and is left out.
\<close>

type_synonym hull_routine = "number list list \<Rightarrow> error + nat list list"

definition computePowerDiagram :: "hull_routine \<Rightarrow> Site list \<Rightarrow> error + Point2D list list" where
  "computePowerDiagram qh sites =
     (let dualPoints = map transformSiteToDualSpace sites
      in case qh (map (\<lambda>p. [p_x p, p_y p, p_z p]) dualPoints) of
           Inl e \<Rightarrow> Inl e
         | Inr hull_faces \<Rightarrow>
             (let hull_triangles = map (face_points dualPoints) hull_faces
              in case lower_faces hull_triangles of
                   Inl e \<Rightarrow> Inl e
                 | Inr lower \<Rightarrow> cells_loop lower sites []))"

section \<open>The relaxation driver (class WeightedVoronoi)\<close>

text \<open>
  Here a point is the pair \<open>[x, y]\<close> and a lifted point the triple \<open>[x, y, z]\<close>. An array
  that \<open>polygonClip\<close> builds can hold \<open>undefined\<close>, so a cell is a list of optional
  points.
\<close>

type_synonym Point = "number \<times> number"
type_synonym Vector3 = "number \<times> number \<times> number"
type_synonym cell = "Point option list"

fun js_abs :: "number \<Rightarrow> number" where
  "js_abs (Fin a) = Fin \<bar>a\<bar>"
| "js_abs PInf = PInf"
| "js_abs NInf = PInf"
| "js_abs NaN = NaN"

fun js_min :: "number \<Rightarrow> number \<Rightarrow> number" where
  "js_min NaN _ = NaN"
| "js_min _ NaN = NaN"
| "js_min a b = (if a < b then a else b)"

text \<open>A number counts as false in a condition when it is zero or \<open>NaN\<close>.\<close>

definition falsy :: "number \<Rightarrow> bool" where
  "falsy n \<longleftrightarrow> n = Fin 0 \<or> n = NaN"

definition polygonInside :: "Point \<Rightarrow> Point \<Rightarrow> Point \<Rightarrow> bool" where
  "polygonInside p a b \<longleftrightarrow>
     (fst b - fst a) * (snd p - snd a) < (snd b - snd a) * (fst p - fst a)"

text \<open>The divisor of \<open>polygonIntersect\<close>, \<open>y43 * x21 - x43 * y21\<close>.\<close>

definition polygonIntersect_denom :: "Point \<Rightarrow> Point \<Rightarrow> Point \<Rightarrow> Point \<Rightarrow> number" where
  "polygonIntersect_denom c d a b =
     (let x21 = fst d - fst c;
          x43 = fst b - fst a;
          y21 = snd d - snd c;
          y43 = snd b - snd a
      in y43 * x21 - x43 * y21)"

definition polygonIntersect :: "Point \<Rightarrow> Point \<Rightarrow> Point \<Rightarrow> Point \<Rightarrow> Point" where
  "polygonIntersect c d a b =
     (let x1 = fst c;
          x3 = fst a;
          x21 = fst d - x1;
          x43 = fst b - x3;
          y1 = snd c;
          y3 = snd a;
          y21 = snd d - y1;
          y43 = snd b - y3;
          ua = (x43 * (y1 - y3) - y43 * (x1 - x3)) / polygonIntersect_denom c d a b
      in (x1 + ua * x21, y1 + ua * y21))"

text \<open>\<open>!(a[0] - b[0] || a[1] - b[1])\<close> on the first and the last point; an empty array throws.\<close>

definition polygonClosed :: "Point list \<Rightarrow> error + bool" where
  "polygonClosed coordinates =
     (case coordinates of
        [] \<Rightarrow> Inl TypeError
      | _ # _ \<Rightarrow>
          (let a = hd coordinates; b = last coordinates
           in Inr (falsy (fst a - fst b) \<and> falsy (snd a - snd b))))"

text \<open>
  The body of the inner loop of \<open>polygonClip\<close> for the subject edge from \<open>c\<close> to \<open>d\<close> and
  the clip edge from \<open>a\<close> to \<open>b\<close>: the points it pushes.
\<close>

definition polygonClip_pushed :: "Point \<Rightarrow> Point \<Rightarrow> Point \<Rightarrow> Point \<Rightarrow> Point list" where
  "polygonClip_pushed a b c d =
     (if polygonInside d a b then
        (if \<not> polygonInside c a b then
           (let intersection = polygonIntersect c d a b
            in if isFinite (fst intersection) then [intersection] else [])
         else [])
          @ [d]
      else if polygonInside c a b then
        (let intersection = polygonIntersect c d a b
         in if isFinite (fst intersection) then [intersection] else [])
      else [])"

fun polygonClip_inner ::
  "Point \<Rightarrow> Point \<Rightarrow> Point option \<Rightarrow> cell \<Rightarrow> cell \<Rightarrow> error + cell" where
  "polygonClip_inner a b c [] subject = Inr subject"
| "polygonClip_inner a b c (d # rest) subject =
     (case (c, d) of
        (Some c', Some d') \<Rightarrow>
          polygonClip_inner a b d rest (subject @ map Some (polygonClip_pushed a b c' d'))
      | _ \<Rightarrow> Inl TypeError)"

text \<open>
  The outer loop, over the clip points \<open>b = clip[i]\<close> for \<open>i < n\<close>, with \<open>a\<close> the clip point
  before. The inner loop visits \<open>input[j]\<close> for \<open>j < m\<close>.
\<close>

fun polygonClip_outer :: "bool \<Rightarrow> Point \<Rightarrow> Point list \<Rightarrow> cell \<Rightarrow> error + cell" where
  "polygonClip_outer subject_closed a [] subject = Inr subject"
| "polygonClip_outer subject_closed a (b # rest) subject =
     (let input = subject;
          m = length input - (if subject_closed then 1 else 0);
          c = (if 0 < m then input ! (m - 1) else None)
      in case polygonClip_inner a b c (take m input) [] of
           Inl e \<Rightarrow> Inl e
         | Inr subject' \<Rightarrow>
             polygonClip_outer subject_closed b rest
               (if subject_closed then subject' @ [case subject' of [] \<Rightarrow> None | s0 # _ \<Rightarrow> s0]
                else subject'))"

text \<open>With \<open>n = 0\<close> the loop makes no pass, and \<open>a = clip[-1]\<close> is never read.\<close>

definition polygonClip :: "Point list \<Rightarrow> Point list \<Rightarrow> error + cell" where
  "polygonClip clip subject =
     (case polygonClosed subject of
        Inl e \<Rightarrow> Inl e
      | Inr subject_closed \<Rightarrow>
          (case polygonClosed clip of
             Inl e \<Rightarrow> Inl e
           | Inr clip_closed \<Rightarrow>
               (let n = length clip - (if clip_closed then 1 else 0)
                in if n = 0 then Inr (map Some subject)
                   else polygonClip_outer subject_closed (clip ! (n - 1)) (take n clip) (map Some subject))))"

definition IMAX :: nat where
  "IMAX = 50"

record WeightedVoronoi =
  wv_omega :: "Point list"
  wv_sites :: "Site list"
  wv_ethreshold :: number

text \<open>The constructor; its third parameter has the default \<open>0.001\<close>.\<close>

definition new_WeightedVoronoi :: "Point list \<Rightarrow> Site list \<Rightarrow> number option \<Rightarrow> WeightedVoronoi" where
  "new_WeightedVoronoi omega sites ethreshold =
     \<lparr>wv_omega = omega, wv_sites = sites,
      wv_ethreshold = (case ethreshold of None \<Rightarrow> Fin (1 / 1000) | Some e \<Rightarrow> e)\<rparr>"

definition array_get :: "'a list \<Rightarrow> nat \<Rightarrow> 'a option" where
  "array_get xs i = (if i < length xs then Some (xs ! i) else None)"

text \<open>The hull routine of this module takes the triples themselves.\<close>

type_synonym hull_routine3 = "Vector3 list \<Rightarrow> error + nat list list"

definition WeightedVoronoi_computePowerDiagram ::
  "hull_routine3 \<Rightarrow> Site list \<Rightarrow> Point list \<Rightarrow> error + cell list" where
  "WeightedVoronoi_computePowerDiagram qh sites omega =
     (if length sites < 4 then Inr []
      else
        (let transformedSites =
               map (\<lambda>site. (p_x site, p_y site, pow2 (p_x site) + pow2 (p_y site) - weight site)) sites
         in case qh transformedSites of
              Inl e \<Rightarrow> Inl e
            | Inr convexHull \<Rightarrow>
                try_map
                  (\<lambda>face.
                     case try_map
                            (\<lambda>vertex. case vertex of
                                         None \<Rightarrow> Inl TypeError
                                       | Some (v0, v1, v2) \<Rightarrow> Inr (v0, v1))
                            (map (array_get transformedSites) face) of
                       Inl e \<Rightarrow> Inl e
                     | Inr lowerEnvelopeFace \<Rightarrow> polygonClip lowerEnvelopeFace omega)
                  convexHull))"

text \<open>
  The loop \<open>for (i = 0; i < polygon.length; i++)\<close> over the edges \<open>p1 = polygon[i]\<close>,
  \<open>p2 = polygon[(i + 1) % polygon.length]\<close>, shared by the area, the centroid and the
  distance; \<open>body\<close> is what one pass does to the loop's variables.
\<close>

fun edge_loop :: "(Point \<Rightarrow> Point \<Rightarrow> 's \<Rightarrow> 's) \<Rightarrow> cell \<Rightarrow> nat list \<Rightarrow> 's \<Rightarrow> error + 's" where
  "edge_loop body polygon [] acc = Inr acc"
| "edge_loop body polygon (i # rest) acc =
     (case (polygon ! i, polygon ! ((i + 1) mod length polygon)) of
        (Some p1, Some p2) \<Rightarrow> edge_loop body polygon rest (body p1 p2 acc)
      | _ \<Rightarrow> Inl TypeError)"

text \<open>The polygon argument is \<open>undefined\<close> when the diagram has no cell at the index.\<close>

definition computePolygonArea :: "cell option \<Rightarrow> error + number" where
  "computePolygonArea polygon =
     (case polygon of
        None \<Rightarrow> Inl TypeError
      | Some pg \<Rightarrow>
          (case edge_loop (\<lambda>p1 p2 area. area + (fst p1 * snd p2 - fst p2 * snd p1))
                  pg [0..<length pg] (Fin 0) of
             Inl e \<Rightarrow> Inl e
           | Inr area \<Rightarrow> Inr (js_abs area / Fin 2)))"

definition computeCentroid :: "cell option \<Rightarrow> error + Point" where
  "computeCentroid polygon =
     (case computePolygonArea polygon of
        Inl e \<Rightarrow> Inl e
      | Inr area \<Rightarrow>
          (case polygon of
             None \<Rightarrow> Inl TypeError
           | Some pg \<Rightarrow>
               (case edge_loop
                       (\<lambda>p1 p2 (centroidX, centroidY).
                          (let factor = fst p1 * snd p2 - fst p2 * snd p1
                           in (centroidX + (fst p1 + fst p2) * factor,
                               centroidY + (snd p1 + snd p2) * factor)))
                       pg [0..<length pg] (Fin 0, Fin 0) of
                  Inl e \<Rightarrow> Inl e
                | Inr (centroidX, centroidY) \<Rightarrow>
                    (let scale = Fin 1 / (Fin 6 * area)
                     in Inr (centroidX * scale, centroidY * scale)))))"

definition distanceToLine :: "Point \<Rightarrow> Point \<Rightarrow> Point \<Rightarrow> number" where
  "distanceToLine point p1 p2 =
     (let dx = fst p2 - fst p1;
          dy = snd p2 - snd p1;
          t = ((fst point - fst p1) * dx + (snd point - snd p1) * dy) / (pow2 dx + pow2 dy);
          closestPoint = (fst p1 + t * dx, snd p1 + t * dy);
          dx2 = fst point - fst closestPoint;
          dy2 = snd point - snd closestPoint
      in js_sqrt (pow2 dx2 + pow2 dy2))"

definition distanceToClosestEdge :: "Point \<Rightarrow> cell \<Rightarrow> error + number" where
  "distanceToClosestEdge point polygon =
     edge_loop (\<lambda>p1 p2 minDistance. js_min minDistance (distanceToLine point p1 p2))
       polygon [0..<length polygon] PInf"

text \<open>The callback of \<open>sites.map((site, index) => ...)\<close>.\<close>

definition adapt_site :: "nat \<Rightarrow> cell list \<Rightarrow> Site \<times> nat \<Rightarrow> error + Site" where
  "adapt_site n diagram = (\<lambda>(site, index).
     (let cell = array_get diagram index
      in case computeCentroid cell of
           Inl e \<Rightarrow> Inl e
         | Inr centroid \<Rightarrow>
             (case cell of
                None \<Rightarrow> Inl TypeError
              | Some pg \<Rightarrow>
                  (case distanceToClosestEdge centroid pg of
                     Inl e \<Rightarrow> Inl e
                   | Inr distanceToBoundary \<Rightarrow>
                       (let targetArea = Fin 1 / Fin (real n);
                            areaRatio = Fin (real (length pg)) / (Fin pi * pow2 distanceToBoundary);
                            newWeight = weight site * (Fin 1 - targetArea / areaRatio)
                        in Inr \<lparr>p_x = fst centroid, p_y = snd centroid, weight = newWeight\<rparr>)))))"

definition adaptPositionsAndWeights :: "Site list \<Rightarrow> cell list \<Rightarrow> error + Site list" where
  "adaptPositionsAndWeights sites diagram =
     try_map (adapt_site (length sites) diagram) (zip sites [0..<length sites])"

fun total_error_loop :: "nat \<Rightarrow> cell list \<Rightarrow> nat list \<Rightarrow> number \<Rightarrow> error + number" where
  "total_error_loop n diagram [] totalError = Inr totalError"
| "total_error_loop n diagram (i # rest) totalError =
     (case computePolygonArea (array_get diagram i) of
        Inl e \<Rightarrow> Inl e
      | Inr area \<Rightarrow>
          (let targetArea = Fin 1 / Fin (real n)
           in total_error_loop n diagram rest (totalError + js_abs (area - targetArea))))"

definition calculateTotalError :: "Site list \<Rightarrow> cell list \<Rightarrow> error + number" where
  "calculateTotalError sites diagram =
     total_error_loop (length sites) diagram [0..<length sites] (Fin 0)"

text \<open>
  \<open>Math.random\<close> is a parameter: \<open>random k\<close> is what its call number \<open>k\<close> returns.
\<close>

definition initializeDiagram ::
  "hull_routine3 \<Rightarrow> (nat \<Rightarrow> number) \<Rightarrow> WeightedVoronoi \<Rightarrow> error + cell list" where
  "initializeDiagram qh random this =
     (let initialSites =
            map (\<lambda>k. \<lparr>p_x = random (2 * k) * Fin 100, p_y = random (2 * k + 1) * Fin 100,
                       weight = Fin 1\<rparr>)
              [0..<length (wv_sites this)]
      in WeightedVoronoi_computePowerDiagram qh initialSites (wv_omega this))"

text \<open>
  The loop of \<open>compute\<close>, from iteration \<open>i\<close> on. Next to its outcome (the diagram
  returned, or the exception thrown) it gives the total error of every iteration that
  got as far as computing one, in order.
\<close>

function compute_loop ::
  "hull_routine3 \<Rightarrow> WeightedVoronoi \<Rightarrow> nat \<Rightarrow> cell list \<Rightarrow> (error + cell list) \<times> number list" where
  "compute_loop qh this i diagram =
     (if i < IMAX then
        (case adaptPositionsAndWeights (wv_sites this) diagram of
           Inl e \<Rightarrow> (Inl e, [])
         | Inr adaptedSites \<Rightarrow>
             (case WeightedVoronoi_computePowerDiagram qh adaptedSites (wv_omega this) of
                Inl e \<Rightarrow> (Inl e, [])
              | Inr diagram' \<Rightarrow>
                  (case calculateTotalError adaptedSites diagram' of
                     Inl e \<Rightarrow> (Inl e, [])
                   | Inr error \<Rightarrow>
                       (if error < wv_ethreshold this then (Inr diagram', [error])
                        else
                          (let (outcome, errors) = compute_loop qh this (i + 1) diagram'
                           in (outcome, error # errors))))))
      else (Inr diagram, []))"
  by pat_completeness auto
termination
  by (relation "measure (\<lambda>(qh, this, i, diagram). IMAX - i)") auto

definition compute_trace ::
  "hull_routine3 \<Rightarrow> (nat \<Rightarrow> number) \<Rightarrow> WeightedVoronoi \<Rightarrow> (error + cell list) \<times> number list" where
  "compute_trace qh random this =
     (case initializeDiagram qh random this of
        Inl e \<Rightarrow> (Inl e, [])
      | Inr diagram \<Rightarrow> compute_loop qh this 0 diagram)"

definition compute :: "hull_routine3 \<Rightarrow> (nat \<Rightarrow> number) \<Rightarrow> WeightedVoronoi \<Rightarrow> error + cell list" where
  "compute qh random this = fst (compute_trace qh random this)"

section \<open>Notions of the specification\<close>

text \<open>
  The cross product and the difference of two vectors, and the test of the specification
  for a face of the lower envelope: the third component of the cross product of
  \<open>p2 - p1\<close> and \<open>p3 - p1\<close>, over the first three vertices, is negative.
\<close>

definition vec_sub :: "Point3D \<Rightarrow> Point3D \<Rightarrow> Point3D" where
  "vec_sub p q = \<lparr>p_x = p_x p - p_x q, p_y = p_y p - p_y q, p_z = p_z p - p_z q\<rparr>"

definition cross_product :: "Point3D \<Rightarrow> Point3D \<Rightarrow> Point3D" where
  "cross_product v w =
     \<lparr>p_x = p_y v * p_z w - p_z v * p_y w,
      p_y = p_z v * p_x w - p_x v * p_z w,
      p_z = p_x v * p_y w - p_y v * p_x w\<rparr>"

fun first_three :: "face \<Rightarrow> (Point3D \<times> Point3D \<times> Point3D) option" where
  "first_three (Some p1 # Some p2 # Some p3 # _) = Some (p1, p2, p3)"
| "first_three _ = None"

definition normal_of_face :: "face \<Rightarrow> Point3D option" where
  "normal_of_face f =
     map_option (\<lambda>(p1, p2, p3). cross_product (vec_sub p2 p1) (vec_sub p3 p1)) (first_three f)"

definition in_lower_envelope :: "face \<Rightarrow> bool" where
  "in_lower_envelope f \<longleftrightarrow>
     (case normal_of_face f of None \<Rightarrow> False | Some n \<Rightarrow> p_z n < Fin 0)"

text \<open>A point and a lifted point all of whose numbers are finite.\<close>

definition finite_point :: "Point2D \<Rightarrow> bool" where
  "finite_point p \<longleftrightarrow> isFinite (p_x p) \<and> isFinite (p_y p)"


text \<open>
  What the hull routine owes its caller: every face has at least three indices, all of
  them indices of points it was given.
\<close>

definition valid_hull :: "nat \<Rightarrow> nat list list \<Rightarrow> bool" where
  "valid_hull n hull_faces \<longleftrightarrow>
     (\<forall>f \<in> set hull_faces. 3 \<le> length f \<and> (\<forall>i \<in> set f. i < n))"

text \<open>
  Modelled from the spec: the hull routine is outside the program, and for fewer than
  four points it "must fail predictably (thrown error or empty result)". These are the
  two routines that do the one and the other.
\<close>

definition hull_throws :: hull_routine where
  "hull_throws points = Inl HullError"

definition hull_empty :: hull_routine where
  "hull_empty points = Inr []"

section \<open>Example data\<close>

text \<open>
  Four sites whose lifted points \<open>(0,0,0)\<close>, \<open>(1,0,1)\<close>, \<open>(0,1,1)\<close>, \<open>(1,1,1)\<close> span a
  tetrahedron, and its four faces with the normal of the first three vertices pointing
  out of it: the first two faces look down, the last two up.
\<close>

definition example_sites :: "Site list" where
  "example_sites =
     [\<lparr>p_x = Fin 0, p_y = Fin 0, weight = Fin 0\<rparr>, \<lparr>p_x = Fin 1, p_y = Fin 0, weight = Fin 0\<rparr>,
      \<lparr>p_x = Fin 0, p_y = Fin 1, weight = Fin 0\<rparr>, \<lparr>p_x = Fin 1, p_y = Fin 1, weight = Fin 1\<rparr>]"

definition example_faces :: "nat list list" where
  "example_faces = [[0, 3, 1], [0, 2, 3], [0, 1, 2], [1, 3, 2]]"

definition example_qh :: hull_routine where
  "example_qh points = Inr example_faces"


text \<open>
  Five sites of weight 0, no three on a line and no four on a circle. Their lifted
  points \<open>(0,0,0)\<close>, \<open>(4,0,16)\<close>, \<open>(0,4,16)\<close>, \<open>(5,5,50)\<close>, \<open>(1,2,5)\<close> are the corners of
  their hull, which has the six triangles listed, with normals pointing out. The
  bounding polygon is a square around the sites.
\<close>

definition five_sites :: "Site list" where
  "five_sites =
     [\<lparr>p_x = Fin 0, p_y = Fin 0, weight = Fin 0\<rparr>, \<lparr>p_x = Fin 4, p_y = Fin 0, weight = Fin 0\<rparr>,
      \<lparr>p_x = Fin 0, p_y = Fin 4, weight = Fin 0\<rparr>, \<lparr>p_x = Fin 5, p_y = Fin 5, weight = Fin 0\<rparr>,
      \<lparr>p_x = Fin 1, p_y = Fin 2, weight = Fin 0\<rparr>]"

definition five_sites_qh :: hull_routine3 where
  "five_sites_qh points = Inr [[0, 1, 3], [0, 4, 1], [0, 3, 2], [0, 2, 4], [1, 4, 3], [2, 3, 4]]"

definition square_omega :: "Point list" where
  "square_omega = [(Fin (- 1), Fin (- 1)), (Fin 6, Fin (- 1)), (Fin 6, Fin 6), (Fin (- 1), Fin 6)]"

text \<open>A triangle that reaches below a square, and the square.\<close>

definition subject_triangle :: "Point2D list" where
  "subject_triangle =
     [\<lparr>p_x = Fin 1, p_y = Fin 1\<rparr>, \<lparr>p_x = Fin 3, p_y = Fin 1\<rparr>, \<lparr>p_x = Fin 2, p_y = Fin (- 1)\<rparr>]"

definition clip_square :: "Point2D list" where
  "clip_square =
     [\<lparr>p_x = Fin 0, p_y = Fin 0\<rparr>, \<lparr>p_x = Fin 4, p_y = Fin 0\<rparr>, \<lparr>p_x = Fin 4, p_y = Fin 4\<rparr>,
      \<lparr>p_x = Fin 0, p_y = Fin 4\<rparr>]"

text \<open>A store that holds the triangle at address 0 and the square at address 1.\<close>

definition example_store :: store where
  "example_store =
     \<lparr>arrays = (\<lambda>a. if a = 0 then subject_triangle else if a = 1 then clip_square else []),
      fresh = 2\<rparr>"

section \<open>Facts about numbers\<close>

lemma minus_Fin [simp]: "Fin a - Fin b = Fin (a - b)"
  by (simp add: minus_number_def)

lemma plus_NaN [simp]: "a + NaN = NaN" "NaN + a = NaN"
  by (cases a; simp)+

lemma minus_NaN [simp]: "a - NaN = NaN" "NaN - a = NaN"
  by (simp_all add: minus_number_def)

lemma times_NaN [simp]: "a * NaN = NaN" "NaN * a = NaN"
  by (cases a; simp)+

lemma divide_NaN [simp]: "a / NaN = NaN" "NaN / a = NaN"
  by (cases a; simp)+

lemma less_NaN [simp]: "\<not> a < NaN" "\<not> NaN < a"
  by (cases a; simp)+

lemma isFinite_iff: "isFinite a \<longleftrightarrow> (\<exists>r. a = Fin r)"
  by (cases a) simp_all








section \<open>Facts about map and filter with a throwing callback\<close>

lemma try_map_Inr:
  assumes "\<forall>v \<in> set vs. g v = Inr (h v)"
  shows "try_map g vs = Inr (map h vs)"
  using assms by (induction vs) simp_all

lemma try_map_length:
  assumes "try_map g vs = Inr ws"
  shows "length ws = length vs"
  using assms by (induction vs arbitrary: ws) (auto split: sum.splits)

lemma try_filter_Inr:
  assumes "\<forall>v \<in> set vs. g v = Inr (P v)"
  shows "try_filter g vs = Inr (filter P vs)"
  using assms by (induction vs) simp_all

section \<open>The lifting step\<close>






section \<open>The lower envelope\<close>

lemma computeNormal_cross:
  "computeNormal p1 p2 p3 = cross_product (vec_sub p2 p1) (vec_sub p3 p1)"
  by (simp add: computeNormal_def cross_product_def vec_sub_def Let_def)

lemma face_normal_first_three:
  "face_normal f = (case first_three f of None \<Rightarrow> Inl TypeError
                    | Some (p1, p2, p3) \<Rightarrow> Inr (computeNormal p1 p2 p3))"
  by (induction f rule: first_three.induct) simp_all

lemma lower_test_spec:
  assumes "first_three f \<noteq> None"
  shows "(case face_normal f of Inl e \<Rightarrow> Inl e | Inr n \<Rightarrow> Inr (p_z n < Fin 0))
           = Inr (in_lower_envelope f)"
  using assms
  by (auto simp: face_normal_first_three in_lower_envelope_def normal_of_face_def computeNormal_cross)

text \<open>
  C2. On hull faces that have their first three vertices, the extraction computes for
  each face the cross product of \<open>p2 - p1\<close> and \<open>p3 - p1\<close> and keeps, in order, exactly
  the faces where its third component is below zero; a face where it is zero is not
  kept.
\<close>

theorem lower_envelope_by_normal:
  assumes "\<forall>f \<in> set hull_triangles. first_three f \<noteq> None"
  shows "lower_faces hull_triangles = Inr (filter in_lower_envelope hull_triangles) \<and>
         (\<forall>f \<in> set hull_triangles. \<forall>p1 p2 p3.
            first_three f = Some (p1, p2, p3) \<longrightarrow>
              face_normal f = Inr (cross_product (vec_sub p2 p1) (vec_sub p3 p1)) \<and>
              (in_lower_envelope f \<longleftrightarrow> p_z (cross_product (vec_sub p2 p1) (vec_sub p3 p1)) < Fin 0) \<and>
              (p_z (cross_product (vec_sub p2 p1) (vec_sub p3 p1)) = Fin 0 \<longrightarrow>
                 f \<notin> set (filter in_lower_envelope hull_triangles)))"
proof -
  have "lower_faces hull_triangles = Inr (filter in_lower_envelope hull_triangles)"
    unfolding lower_faces_def using assms by (intro try_filter_Inr) (simp add: lower_test_spec)
  moreover have "face_normal f = Inr (cross_product (vec_sub p2 p1) (vec_sub p3 p1))"
    if "first_three f = Some (p1, p2, p3)" for f p1 p2 p3
    using that by (simp add: face_normal_first_three computeNormal_cross)
  moreover have "in_lower_envelope f \<longleftrightarrow> p_z (cross_product (vec_sub p2 p1) (vec_sub p3 p1)) < Fin 0"
    if "first_three f = Some (p1, p2, p3)" for f p1 p2 p3
    using that by (simp add: in_lower_envelope_def normal_of_face_def)
  ultimately show ?thesis by auto
qed

text \<open>
  C2 on three faces over the lifted example points: one that looks down (normal
  \<open>(1, 0, -1)\<close>), one that looks up (normal \<open>(-1, -1, 1)\<close>) and a vertical one (normal
  \<open>(0, -1, 0)\<close>). Only the first is kept.
\<close>

theorem lower_envelope_by_normal_witness:
  "lower_faces
     [[Some \<lparr>p_x = Fin 0, p_y = Fin 0, p_z = Fin 0\<rparr>, Some \<lparr>p_x = Fin 1, p_y = Fin 1, p_z = Fin 1\<rparr>,
       Some \<lparr>p_x = Fin 1, p_y = Fin 0, p_z = Fin 1\<rparr>],
      [Some \<lparr>p_x = Fin 0, p_y = Fin 0, p_z = Fin 0\<rparr>, Some \<lparr>p_x = Fin 1, p_y = Fin 0, p_z = Fin 1\<rparr>,
       Some \<lparr>p_x = Fin 0, p_y = Fin 1, p_z = Fin 1\<rparr>],
      [Some \<lparr>p_x = Fin 0, p_y = Fin 0, p_z = Fin 0\<rparr>, Some \<lparr>p_x = Fin 1, p_y = Fin 0, p_z = Fin 1\<rparr>,
       Some \<lparr>p_x = Fin 1, p_y = Fin 0, p_z = Fin 2\<rparr>]]
   = Inr [[Some \<lparr>p_x = Fin 0, p_y = Fin 0, p_z = Fin 0\<rparr>, Some \<lparr>p_x = Fin 1, p_y = Fin 1, p_z = Fin 1\<rparr>,
           Some \<lparr>p_x = Fin 1, p_y = Fin 0, p_z = Fin 1\<rparr>]]"
  using lower_envelope_by_normal
    [of "[[Some \<lparr>p_x = Fin 0, p_y = Fin 0, p_z = Fin 0\<rparr>, Some \<lparr>p_x = Fin 1, p_y = Fin 1, p_z = Fin 1\<rparr>,
           Some \<lparr>p_x = Fin 1, p_y = Fin 0, p_z = Fin 1\<rparr>],
          [Some \<lparr>p_x = Fin 0, p_y = Fin 0, p_z = Fin 0\<rparr>, Some \<lparr>p_x = Fin 1, p_y = Fin 0, p_z = Fin 1\<rparr>,
           Some \<lparr>p_x = Fin 0, p_y = Fin 1, p_z = Fin 1\<rparr>],
          [Some \<lparr>p_x = Fin 0, p_y = Fin 0, p_z = Fin 0\<rparr>, Some \<lparr>p_x = Fin 1, p_y = Fin 0, p_z = Fin 1\<rparr>,
           Some \<lparr>p_x = Fin 1, p_y = Fin 0, p_z = Fin 2\<rparr>]]"]
  by (simp add: in_lower_envelope_def normal_of_face_def cross_product_def vec_sub_def)


section \<open>Cells of the power diagram\<close>

lemma first_three_defined:
  assumes "3 \<le> length f" "None \<notin> set f"
  shows "\<exists>p1 p2 p3 rest. f = Some p1 # Some p2 # Some p3 # rest"
proof -
  from assms(1) obtain a b c rest where f: "f = a # b # c # rest"
    by (cases f; cases "tl f"; cases "tl (tl f)") auto
  with assms(2) obtain p1 p2 p3 where "a = Some p1" "b = Some p2" "c = Some p3"
    by (cases a; cases b; cases c) auto
  with f show ?thesis by simp
qed


lemma face_points_valid:
  assumes "3 \<le> length f" "\<forall>i \<in> set f. i < length dualPoints"
  shows "3 \<le> length (face_points dualPoints f)"
    and "None \<notin> set (face_points dualPoints f)"
    and "\<forall>p. Some p \<in> set (face_points dualPoints f) \<longrightarrow> p \<in> set dualPoints"
  using assms by (auto simp: face_points_def)

lemma face_has_site_Inr:
  assumes "None \<notin> set f"
  shows "\<exists>hit. face_has_site site f = Inr hit"
  using assms by (induction site f rule: face_has_site.induct) auto


lemma site_points_Inr:
  assumes "\<forall>f \<in> set lower. 3 \<le> length f \<and> None \<notin> set f"
  shows "site_points lower site =
           Inr (map (\<lambda>f. projr (face_vertex f))
                  (filter (\<lambda>f. projr (face_has_site site f)) lower))"
proof -
  have "try_filter (face_has_site site) lower
          = Inr (filter (\<lambda>f. projr (face_has_site site f)) lower)"
  proof (rule try_filter_Inr, rule ballI)
    fix f assume "f \<in> set lower"
    with assms have "None \<notin> set f" by simp
    from face_has_site_Inr[OF this, of site]
    show "face_has_site site f = Inr (projr (face_has_site site f))" by auto
  qed
  moreover have "try_map face_vertex (filter (\<lambda>f. projr (face_has_site site f)) lower)
          = Inr (map (\<lambda>f. projr (face_vertex f)) (filter (\<lambda>f. projr (face_has_site site f)) lower))"
  proof (rule try_map_Inr, rule ballI)
    fix f assume "f \<in> set (filter (\<lambda>f. projr (face_has_site site f)) lower)"
    with assms have "3 \<le> length f" "None \<notin> set f" by simp_all
    from first_three_defined[OF this]
    show "face_vertex f = Inr (projr (face_vertex f))" by auto
  qed
  ultimately show ?thesis by (simp add: site_points_def)
qed

lemma cells_loop_Inr:
  assumes "\<forall>site \<in> set sites. site_points lower site = Inr (h site)"
  shows "cells_loop lower sites cells = Inr (cells @ map h sites)"
  using assms by (induction sites arbitrary: cells) simp_all

lemma cells_loop_length:
  assumes "cells_loop lower sites cells = Inr result"
  shows "length result = length cells + length sites"
  using assms by (induction sites arbitrary: cells) (auto split: sum.splits)

lemma computePowerDiagram_length:
  assumes "computePowerDiagram qh sites = Inr cells"
  shows "length cells = length sites"
  using assms cells_loop_length[of _ sites "[]" cells]
  by (auto simp: computePowerDiagram_def Let_def split: sum.splits)

lemma lower_faces_valid_hull:
  assumes "valid_hull (length dualPoints) hull_faces"
  shows "lower_faces (map (face_points dualPoints) hull_faces)
           = Inr (filter in_lower_envelope (map (face_points dualPoints) hull_faces))"
    and "\<forall>f \<in> set (map (face_points dualPoints) hull_faces).
           3 \<le> length f \<and> None \<notin> set f \<and> (\<forall>p. Some p \<in> set f \<longrightarrow> p \<in> set dualPoints)"
proof -
  show valid: "\<forall>f \<in> set (map (face_points dualPoints) hull_faces).
           3 \<le> length f \<and> None \<notin> set f \<and> (\<forall>p. Some p \<in> set f \<longrightarrow> p \<in> set dualPoints)"
    using assms face_points_valid[of _ dualPoints] unfolding valid_hull_def by auto
  have "\<forall>f \<in> set (map (face_points dualPoints) hull_faces). first_three f \<noteq> None"
  proof
    fix f assume "f \<in> set (map (face_points dualPoints) hull_faces)"
    with valid have "3 \<le> length f" "None \<notin> set f" by blast+
    from first_three_defined[OF this] show "first_three f \<noteq> None" by auto
  qed
  then show "lower_faces (map (face_points dualPoints) hull_faces)
           = Inr (filter in_lower_envelope (map (face_points dualPoints) hull_faces))"
    unfolding lower_faces_def by (intro try_filter_Inr) (simp add: lower_test_spec)
qed

text \<open>
  The exported \<open>computePowerDiagram\<close> returns one polygon per site. When the hull
  routine returns faces of at least three indices, all in range, the result has the
  length and the order of the site list; the polygon of a site is the one its loop
  pass computes, and it is empty when no face of the lower envelope has the site's
  \<open>x\<close> and \<open>y\<close>.
\<close>

lemma exported_one_cell_per_site:
  assumes hull: "qh (map (\<lambda>p. [p_x p, p_y p, p_z p]) (map transformSiteToDualSpace sites)) = Inr hull_faces"
    and valid: "valid_hull (length sites) hull_faces"
  shows "\<exists>lower cells.
           lower_faces (map (face_points (map transformSiteToDualSpace sites)) hull_faces) = Inr lower \<and>
           computePowerDiagram qh sites = Inr cells \<and>
           length cells = length sites \<and>
           (\<forall>k < length sites. site_points lower (sites ! k) = Inr (cells ! k)) \<and>
           (\<forall>k < length sites.
              try_filter (face_has_site (sites ! k)) lower = Inr [] \<longrightarrow> cells ! k = [])"
proof -
  define dualPoints where "dualPoints = map transformSiteToDualSpace sites"
  define lower where "lower = filter in_lower_envelope (map (face_points dualPoints) hull_faces)"
  define h where "h = (\<lambda>site. map (\<lambda>f. projr (face_vertex f))
                                (filter (\<lambda>f. projr (face_has_site site f)) lower))"
  from valid have valid': "valid_hull (length dualPoints) hull_faces"
    by (simp add: dualPoints_def)
  have lower: "lower_faces (map (face_points dualPoints) hull_faces) = Inr lower"
    using lower_faces_valid_hull(1)[OF valid'] by (simp add: lower_def)
  have "\<forall>f \<in> set lower. 3 \<le> length f \<and> None \<notin> set f"
    using lower_faces_valid_hull(2)[OF valid'] by (auto simp: lower_def)
  then have pts: "site_points lower site = Inr (h site)" for site
    unfolding h_def by (rule site_points_Inr)
  then have loop: "cells_loop lower sites [] = Inr (map h sites)"
    using cells_loop_Inr[of sites lower h "[]"] by simp
  have result: "computePowerDiagram qh sites = Inr (map h sites)"
    using hull lower loop by (simp add: computePowerDiagram_def dualPoints_def)
  have empty: "map h sites ! k = []"
    if "k < length sites" "try_filter (face_has_site (sites ! k)) lower = Inr []" for k
    using that pts[of "sites ! k"] by (simp add: site_points_def)
  show ?thesis
    using lower result pts empty unfolding dualPoints_def
    by (intro exI[of _ lower] exI[of _ "map h sites"]) simp
qed

text \<open>
  On the four example sites: the two faces that look down give the vertices
  \<open>(1/2, 0)\<close> and \<open>(0, 1/2)\<close>; the first and the last site are on both faces, the
  second and the third on one each.
\<close>

lemma exported_diagram_of_example_sites:
  "computePowerDiagram example_qh example_sites =
     Inr [[\<lparr>p_x = Fin (1 / 2), p_y = Fin 0\<rparr>, \<lparr>p_x = Fin 0, p_y = Fin (1 / 2)\<rparr>],
          [\<lparr>p_x = Fin (1 / 2), p_y = Fin 0\<rparr>],
          [\<lparr>p_x = Fin 0, p_y = Fin (1 / 2)\<rparr>],
          [\<lparr>p_x = Fin (1 / 2), p_y = Fin 0\<rparr>, \<lparr>p_x = Fin 0, p_y = Fin (1 / 2)\<rparr>]]"
  by (simp add: computePowerDiagram_def example_qh_def example_sites_def example_faces_def
      transformSiteToDualSpace_def face_points_def lower_faces_def computeNormal_def
      site_points_def strict_eq_def calculatePlaneCoefficients_def plane_gamma_def delta_def
      mapTo2D_def Let_def)

text \<open>
  The method of \<open>WeightedVoronoi\<close>, for four sites or more, returns as many cells as
  the hull has faces.
\<close>

lemma relaxation_diagram_length:
  assumes "4 \<le> length sites"
    and "qh (map (\<lambda>site. (p_x site, p_y site, pow2 (p_x site) + pow2 (p_y site) - weight site)) sites)
           = Inr convexHull"
    and "WeightedVoronoi_computePowerDiagram qh sites omega = Inr cells"
  shows "length cells = length convexHull"
  using assms by (auto simp: WeightedVoronoi_computePowerDiagram_def Let_def dest: try_map_length)

text \<open>
  C3 fails on the method \<open>computePowerDiagram\<close> of the class \<open>WeightedVoronoi\<close>, which
  returns one cell per face of the hull. For the five example sites the hull has six
  faces, and the method returns six cells.
\<close>

theorem relaxation_diagram_has_one_cell_per_face:
  "length five_sites = 5 \<and>
   (\<exists>cells. WeightedVoronoi_computePowerDiagram five_sites_qh five_sites square_omega = Inr cells \<and>
      length cells = 6)"
  by (simp add: WeightedVoronoi_computePowerDiagram_def five_sites_qh_def five_sites_def
      square_omega_def array_get_def polygonClip_def polygonClosed_def falsy_def Let_def
      polygonClip_pushed_def polygonInside_def polygonIntersect_def polygonIntersect_denom_def)

section \<open>Fewer than four sites\<close>

text \<open>
  C4 fails on the exported \<open>computePowerDiagram\<close>, which has no test of the number of
  sites: it hands the three lifted points to the hull routine. When that throws, so
  does the function; when that returns no face, the function returns three empty
  polygons. Neither is the empty cell list.
\<close>

theorem exported_diagram_of_three_sites:
  "computePowerDiagram hull_throws
     [\<lparr>p_x = Fin 0, p_y = Fin 0, weight = Fin 1\<rparr>, \<lparr>p_x = Fin 1, p_y = Fin 0, weight = Fin 1\<rparr>,
      \<lparr>p_x = Fin 0, p_y = Fin 1, weight = Fin 1\<rparr>] = Inl HullError \<and>
   computePowerDiagram hull_empty
     [\<lparr>p_x = Fin 0, p_y = Fin 0, weight = Fin 1\<rparr>, \<lparr>p_x = Fin 1, p_y = Fin 0, weight = Fin 1\<rparr>,
      \<lparr>p_x = Fin 0, p_y = Fin 1, weight = Fin 1\<rparr>] = Inr [[], [], []]"
  by (simp add: computePowerDiagram_def hull_throws_def hull_empty_def lower_faces_def site_points_def)

text \<open>
  The method \<open>computePowerDiagram\<close> of \<open>WeightedVoronoi\<close> returns the empty cell list
  for fewer than four sites, whatever the hull routine would do. The exported
  \<open>computePowerDiagram\<close> throws what the hull routine throws and, for a list of sites
  that is not empty, never returns the empty cell list.
\<close>

lemma fewer_than_four_sites:
  "(length sites < 4 \<longrightarrow> WeightedVoronoi_computePowerDiagram qh3 sites omega = Inr []) \<and>
   (sites \<noteq> [] \<longrightarrow> computePowerDiagram qh sites \<noteq> Inr []) \<and>
   (\<forall>e. qh (map (\<lambda>p. [p_x p, p_y p, p_z p]) (map transformSiteToDualSpace sites)) = Inl e \<longrightarrow>
      computePowerDiagram qh sites = Inl e)"
proof (intro conjI impI allI)
  assume "length sites < 4"
  then show "WeightedVoronoi_computePowerDiagram qh3 sites omega = Inr []"
    by (simp add: WeightedVoronoi_computePowerDiagram_def)
next
  assume "sites \<noteq> []"
  with computePowerDiagram_length[of qh sites "[]"]
  show "computePowerDiagram qh sites \<noteq> Inr []" by auto
next
  fix e assume "qh (map (\<lambda>p. [p_x p, p_y p, p_z p]) (map transformSiteToDualSpace sites)) = Inl e"
  then show "computePowerDiagram qh sites = Inl e"
    by (simp add: computePowerDiagram_def)
qed

text \<open>
  On the first three example sites, with a hull routine that throws, the method
  returns the empty list and the exported function throws.
\<close>

lemma fewer_than_four_sites_on_three_sites:
  "WeightedVoronoi_computePowerDiagram (\<lambda>points. Inl HullError) (take 3 example_sites) square_omega = Inr [] \<and>
   computePowerDiagram hull_throws (take 3 example_sites) \<noteq> Inr [] \<and>
   computePowerDiagram hull_throws (take 3 example_sites) = Inl HullError"
  using fewer_than_four_sites
    [of "take 3 example_sites" "\<lambda>points. Inl HullError" square_omega hull_throws]
  by (simp add: example_sites_def hull_throws_def)

section \<open>Division by gamma\<close>










section \<open>Clipping\<close>

text \<open>
  C9. With an empty clipping boundary the clip loop never runs, and \<open>clipPolygon\<close>
  returns the subject polygon as it was passed in.
\<close>

theorem clipPolygon_empty_boundary: "clipPolygon polygon [] = polygon"
  by (simp add: clipPolygon_def)

text \<open>
  C6 fails on the code. Clipping the example triangle, which reaches below the example
  square, returns the vertex \<open>(5/2, -2)\<close>, on the outer side of the square's edge from
  \<open>(0, 0)\<close> to \<open>(4, 0)\<close>. The triangle's edge from \<open>(2, -1)\<close> to \<open>(1, 1)\<close> crosses that
  edge at \<open>(3/2, 0)\<close>; \<open>computeIntersection\<close> computes the parameter \<open>t\<close> of the crossing
  with the opposite sign and returns the point at \<open>-t\<close>.
\<close>

theorem clip_result_outside_clip_polygon:
  "clipPolygon subject_triangle clip_square
     = [\<lparr>p_x = Fin (5 / 2), p_y = Fin (- 2)\<rparr>, \<lparr>p_x = Fin 1, p_y = Fin 1\<rparr>,
        \<lparr>p_x = Fin 3, p_y = Fin 1\<rparr>, \<lparr>p_x = Fin (7 / 2), p_y = Fin 2\<rparr>] \<and>
   \<not> on_or_inside \<lparr>p_x = Fin (5 / 2), p_y = Fin (- 2)\<rparr>
         \<lparr>p_x = Fin 0, p_y = Fin 0\<rparr> \<lparr>p_x = Fin 4, p_y = Fin 0\<rparr> \<and>
   \<not> within_polygon \<lparr>p_x = Fin (5 / 2), p_y = Fin (- 2)\<rparr> clip_square"
  by (simp add: clipPolygon_def subject_triangle_def clip_square_def clip_pass_def clip_pushed_def
      inside_def computeIntersection_def intersection_denom_def strict_eq_def Let_def
      within_polygon_def on_or_inside_def)

text \<open>
  The sign of \<open>t\<close> in general: for finite points and \<open>denom\<close> not 0, it is the mirror
  image at \<open>S\<close> of the point \<open>computeIntersection\<close> returns that lies on the line of
  the clip edge.
\<close>

lemma computeIntersection_mirrored:
  assumes "finite_point S" "finite_point E" "finite_point edgeStart" "finite_point edgeEnd"
    and "intersection_denom S E edgeStart edgeEnd \<noteq> Fin 0"
  shows "on_line (mirror_at S (computeIntersection S E edgeStart edgeEnd)) edgeStart edgeEnd"
proof -
  from assms(1-4) obtain sx sy ex ey ax ay bx by' where c:
    "p_x S = Fin sx" "p_y S = Fin sy" "p_x E = Fin ex" "p_y E = Fin ey"
    "p_x edgeStart = Fin ax" "p_y edgeStart = Fin ay" "p_x edgeEnd = Fin bx" "p_y edgeEnd = Fin by'"
    unfolding finite_point_def isFinite_iff by blast
  define d where "d = (ex - sx) * (by' - ay) - (ey - sy) * (bx - ax)"
  from assms(5) c have d: "d \<noteq> 0"
    by (simp add: intersection_denom_def Let_def d_def)
  define t where "t = ((sx - ax) * (by' - ay) - (sy - ay) * (bx - ax)) / d"
  have P: "computeIntersection S E edgeStart edgeEnd
             = \<lparr>p_x = Fin (sx + t * (ex - sx)), p_y = Fin (sy + t * (ey - sy))\<rparr>"
    using c d
    by (simp add: computeIntersection_def intersection_denom_def Let_def strict_eq_def
        d_def[symmetric] t_def)
  have "(bx - ax) * ((2 * sy - (sy + t * (ey - sy))) - ay)
          = (by' - ay) * ((2 * sx - (sx + t * (ex - sx))) - ax)"
  proof -
    have "t * d = (sx - ax) * (by' - ay) - (sy - ay) * (bx - ax)"
      using d by (simp add: t_def)
    then show ?thesis by (simp add: d_def algebra_simps)
  qed
  then show ?thesis
    using c by (simp add: P on_line_def mirror_at_def strict_eq_def)
qed

subsection \<open>Parallel edges\<close>




text \<open>
  Called on a parallel pair, \<open>computeIntersection\<close> returns the origin: here for the
  subject edge from \<open>(1, 1)\<close> to \<open>(2, 1)\<close> and the clip edge from \<open>(0, 2)\<close> to \<open>(4, 2)\<close>.
  Both of its call sites would push that point.
\<close>

lemma computeIntersection_parallel_gives_origin:
  "intersection_denom \<lparr>p_x = Fin 1, p_y = Fin 1\<rparr> \<lparr>p_x = Fin 2, p_y = Fin 1\<rparr>
     \<lparr>p_x = Fin 0, p_y = Fin 2\<rparr> \<lparr>p_x = Fin 4, p_y = Fin 2\<rparr> = Fin 0 \<and>
   computeIntersection \<lparr>p_x = Fin 1, p_y = Fin 1\<rparr> \<lparr>p_x = Fin 2, p_y = Fin 1\<rparr>
     \<lparr>p_x = Fin 0, p_y = Fin 2\<rparr> \<lparr>p_x = Fin 4, p_y = Fin 2\<rparr> = \<lparr>p_x = Fin 0, p_y = Fin 0\<rparr>"
  by (simp add: intersection_denom_def computeIntersection_def strict_eq_def Let_def)



subsection \<open>What clipPolygon writes\<close>

lemma fold_push:
  "fold (push r) ps s = s\<lparr>arrays := (arrays s)(r := arrays s r @ ps)\<rparr>"
  by (induction ps arbitrary: s) (simp_all add: push_def)

lemma clip_edge_st_result:
  assumes "outputList \<noteq> inputList" "j \<le> length (arrays s inputList)"
  shows "clip_edge_st edgeStart edgeEnd inputList outputList S j s
           = Some (s\<lparr>arrays := (arrays s)
                 (outputList := clip_edge edgeStart edgeEnd S (drop j (arrays s inputList))
                                  (arrays s outputList))\<rparr>)"
  using assms(2)
proof (induction "length (arrays s inputList) - j" arbitrary: j S s)
  case 0
  then show ?case by (subst clip_edge_st.simps) simp
next
  case (Suc n)
  then have j: "j < length (arrays s inputList)" by simp
  define E where "E = arrays s inputList ! j"
  define s1 where "s1 = fold (push outputList) (clip_pushed edgeStart edgeEnd S E) s"
  have s1: "s1 = s\<lparr>arrays := (arrays s)(outputList := arrays s outputList @ clip_pushed edgeStart edgeEnd S E)\<rparr>"
    by (simp add: s1_def fold_push)
  with assms(1) have same: "arrays s1 inputList = arrays s inputList" by simp
  have "clip_edge_st edgeStart edgeEnd inputList outputList S j s
          = clip_edge_st edgeStart edgeEnd inputList outputList E (j + 1) s1"
    using j by (subst clip_edge_st.simps) (simp add: E_def s1_def Let_def)
  also have "\<dots> = Some (s1\<lparr>arrays := (arrays s1)
                 (outputList := clip_edge edgeStart edgeEnd E (drop (j + 1) (arrays s1 inputList))
                                  (arrays s1 outputList))\<rparr>)"
    using Suc.hyps(2) j same by (intro Suc.hyps(1)) simp_all
  also have "\<dots> = Some (s\<lparr>arrays := (arrays s)
                 (outputList := clip_edge edgeStart edgeEnd S (drop j (arrays s inputList))
                                  (arrays s outputList))\<rparr>)"
    using j same by (simp add: s1 E_def Cons_nth_drop_Suc[symmetric])
  finally show ?case .
qed

lemma clip_pass_st_result:
  assumes "inputList < fresh s"
  shows "clip_pass_st edgeStart edgeEnd inputList s
           = Some (fresh s, s\<lparr>arrays := (arrays s)(fresh s := clip_pass edgeStart edgeEnd (arrays s inputList)),
                               fresh := Suc (fresh s)\<rparr>)"
proof -
  define s1 where "s1 = s\<lparr>arrays := (arrays s)(fresh s := []), fresh := Suc (fresh s)\<rparr>"
  from assms have same: "arrays s1 inputList = arrays s inputList" by (simp add: s1_def)
  show ?thesis
  proof (cases "arrays s inputList")
    case Nil
    with same show ?thesis
      by (simp add: clip_pass_st_def alloc_array_def clip_pass_def s1_def)
  next
    case (Cons p ps)
    from assms have "fresh s \<noteq> inputList" by simp
    from clip_edge_st_result[OF this, of 0 s1 edgeStart edgeEnd "last (arrays s1 inputList)"]
    have "clip_edge_st edgeStart edgeEnd inputList (fresh s) (last (arrays s1 inputList)) 0 s1
            = Some (s1\<lparr>arrays := (arrays s1)
                 (fresh s := clip_edge edgeStart edgeEnd (last (arrays s1 inputList)) (arrays s1 inputList)
                               (arrays s1 (fresh s)))\<rparr>)"
      by simp
    with Cons same show ?thesis
      by (simp add: clip_pass_st_def alloc_array_def clip_pass_def s1_def)
  qed
qed

lemma clip_loop_st_result:
  assumes "clippingBoundary < fresh s" "outputList < fresh s"
  shows "\<exists>r s'. clip_loop_st clippingBoundary i outputList s = Some (r, s') \<and>
           arrays s' r = clip_loop (arrays s clippingBoundary) i (arrays s outputList) \<and>
           (\<forall>a < fresh s. arrays s' a = arrays s a) \<and> r < fresh s' \<and> fresh s \<le> fresh s'"
  using assms
proof (induction "length (arrays s clippingBoundary) - i" arbitrary: i outputList s)
  case 0
  then show ?case by (subst clip_loop_st.simps) simp
next
  case (Suc n)
  then have i: "i < length (arrays s clippingBoundary)" by simp
  define cb where "cb = arrays s clippingBoundary"
  define out where "out = clip_pass (cb ! i) (cb ! ((i + 1) mod length cb)) (arrays s outputList)"
  define s1 where "s1 = s\<lparr>arrays := (arrays s)(fresh s := out), fresh := Suc (fresh s)\<rparr>"
  have pass: "clip_pass_st (cb ! i) (cb ! ((i + 1) mod length cb)) outputList s = Some (fresh s, s1)"
    using clip_pass_st_result[OF Suc.prems(2)] by (simp add: s1_def out_def)
  have step: "clip_loop_st clippingBoundary i outputList s
                = clip_loop_st clippingBoundary (i + 1) (fresh s) s1"
    using i pass by (subst clip_loop_st.simps) (simp add: cb_def)
  from Suc.prems have cb1: "arrays s1 clippingBoundary = cb"
    by (simp add: s1_def cb_def)
  have "\<exists>r s'. clip_loop_st clippingBoundary (i + 1) (fresh s) s1 = Some (r, s') \<and>
           arrays s' r = clip_loop (arrays s1 clippingBoundary) (i + 1) (arrays s1 (fresh s)) \<and>
           (\<forall>a < fresh s1. arrays s' a = arrays s1 a) \<and> r < fresh s' \<and> fresh s1 \<le> fresh s'"
    using Suc.hyps(2) Suc.prems i cb1 by (intro Suc.hyps(1)) (simp_all add: cb_def s1_def)
  then obtain r s' where r: "clip_loop_st clippingBoundary (i + 1) (fresh s) s1 = Some (r, s')"
    "arrays s' r = clip_loop (arrays s1 clippingBoundary) (i + 1) (arrays s1 (fresh s))"
    "\<forall>a < fresh s1. arrays s' a = arrays s1 a" "r < fresh s'" "fresh s1 \<le> fresh s'"
    by blast
  have "arrays s' r = clip_loop cb i (arrays s outputList)"
    using r(2) i cb1 by (subst clip_loop.simps) (simp add: cb_def[symmetric] s1_def out_def)
  moreover have "\<forall>a < fresh s. arrays s' a = arrays s a"
    using r(3) by (simp add: s1_def)
  moreover have "fresh s \<le> fresh s'"
    using r(5) by (simp add: s1_def)
  ultimately show ?case
    using step r(1,4) by (simp add: cb_def)
qed

text \<open>
  C10. Called on two arrays of the store, \<open>clipPolygon\<close> returns, and the store it
  leaves holds at both addresses the points it held before, in the same order; the
  array it returns holds the result of the function on lists.
\<close>

theorem clipPolygon_leaves_arguments:
  assumes "polygon < fresh s" "clippingBoundary < fresh s"
  shows "\<exists>r s'. clipPolygon_st polygon clippingBoundary s = Some (r, s') \<and>
           arrays s' polygon = arrays s polygon \<and>
           arrays s' clippingBoundary = arrays s clippingBoundary \<and>
           arrays s' r = clipPolygon (arrays s polygon) (arrays s clippingBoundary)"
  using clip_loop_st_result[OF assms(2,1), of 0] assms
  unfolding clipPolygon_st_def clipPolygon_def by blast

text \<open>
  C10 on the example store: after clipping the triangle at address 0 by the square at
  address 1, address 0 still holds the triangle and address 1 the square.
\<close>

theorem clipPolygon_leaves_arguments_witness:
  "\<exists>r s'. clipPolygon_st 0 1 example_store = Some (r, s') \<and>
     arrays s' 0 = subject_triangle \<and> arrays s' 1 = clip_square \<and>
     arrays s' r = clipPolygon subject_triangle clip_square"
  using clipPolygon_leaves_arguments[of 0 example_store 1]
  by (simp add: example_store_def)

section \<open>The relaxation loop\<close>

lemma compute_loop_trace:
  "length (snd (compute_loop qh this i diagram)) \<le> IMAX - i \<and>
   (\<forall>k. Suc k < length (snd (compute_loop qh this i diagram)) \<longrightarrow>
      \<not> snd (compute_loop qh this i diagram) ! k < wv_ethreshold this) \<and>
   (\<forall>e. fst (compute_loop qh this i diagram) = Inl e \<longrightarrow>
      length (snd (compute_loop qh this i diagram)) < IMAX - i) \<and>
   (\<forall>d. fst (compute_loop qh this i diagram) = Inr d \<longrightarrow>
      length (snd (compute_loop qh this i diagram)) < IMAX - i \<longrightarrow>
      snd (compute_loop qh this i diagram) \<noteq> [] \<and>
      last (snd (compute_loop qh this i diagram)) < wv_ethreshold this)"
proof (induction qh this i diagram rule: compute_loop.induct)
  case (1 qh this i diagram)
  show ?case
  proof (cases "i < IMAX")
    case False
    then show ?thesis by (subst (1 2 3 4 5 6 7 8 9) compute_loop.simps) simp
  next
    case True
    show ?thesis
    proof (cases "adaptPositionsAndWeights (wv_sites this) diagram")
      case (Inl e)
      with True have "compute_loop qh this i diagram = (Inl e, [])"
        by (subst compute_loop.simps) simp
      with True show ?thesis by simp
    next
      case adapted: (Inr adaptedSites)
      show ?thesis
      proof (cases "WeightedVoronoi_computePowerDiagram qh adaptedSites (wv_omega this)")
        case (Inl e)
        with True adapted have "compute_loop qh this i diagram = (Inl e, [])"
          by (subst compute_loop.simps) simp
        with True show ?thesis by simp
      next
        case diagram': (Inr diagram')
        show ?thesis
        proof (cases "calculateTotalError adaptedSites diagram'")
          case (Inl e)
          with True adapted diagram' have "compute_loop qh this i diagram = (Inl e, [])"
            by (subst compute_loop.simps) simp
          with True show ?thesis by simp
        next
          case error: (Inr error)
          show ?thesis
          proof (cases "error < wv_ethreshold this")
            case below: True
            with True adapted diagram' error
            have "compute_loop qh this i diagram = (Inr diagram', [error])"
              by (subst compute_loop.simps) simp
            with True below show ?thesis by simp
          next
            case above: False
            define rest where "rest = compute_loop qh this (i + 1) diagram'"
            from True adapted diagram' error above
            have r: "compute_loop qh this i diagram = (fst rest, error # snd rest)"
              by (subst compute_loop.simps) (simp add: rest_def split: prod.splits)
            note IH = "1.IH"[OF True adapted diagram' error above, folded rest_def]
            from IH have "length (snd rest) \<le> IMAX - (i + 1)" by simp
            with True have len: "length (error # snd rest) \<le> IMAX - i" by simp
            have early: "\<not> (error # snd rest) ! k < wv_ethreshold this"
              if "Suc k < length (error # snd rest)" for k
              using that above IH by (cases k) simp_all
            have thrown: "length (error # snd rest) < IMAX - i" if "fst rest = Inl e" for e
            proof -
              from that IH have "length (snd rest) < IMAX - (i + 1)" by auto
              with True show ?thesis by simp
            qed
            have stopped: "error # snd rest \<noteq> [] \<and> last (error # snd rest) < wv_ethreshold this"
              if "fst rest = Inr d" "length (error # snd rest) < IMAX - i" for d
            proof -
              from that(2) have "length (snd rest) < IMAX - (i + 1)" by simp
              with that(1) IH show ?thesis by auto
            qed
            show ?thesis
              unfolding r fst_conv snd_conv using len early thrown stopped by blast
          qed
        qed
      qed
    qed
  qed
qed

text \<open>
  C8. \<open>compute\<close> ends, with a diagram or with an exception, and the total errors of
  the iterations it ran tell how: there are at most \<open>IMAX = 50\<close> of them, and fewer
  when an exception ended the run; no iteration follows one whose total error was
  below the threshold; and a run that returns a diagram after fewer than \<open>IMAX\<close>
  iterations ended on a total error below the threshold. The constructor's default
  for the threshold is \<open>0.001\<close>.
\<close>

theorem compute_stops_within_IMAX:
  "IMAX = 50 \<and>
   wv_ethreshold (new_WeightedVoronoi omega sites None) = Fin (1 / 1000) \<and>
   compute qh random this = fst (compute_trace qh random this) \<and>
   length (snd (compute_trace qh random this)) \<le> IMAX \<and>
   (\<forall>k. Suc k < length (snd (compute_trace qh random this)) \<longrightarrow>
      \<not> snd (compute_trace qh random this) ! k < wv_ethreshold this) \<and>
   (\<forall>e. compute qh random this = Inl e \<longrightarrow> length (snd (compute_trace qh random this)) < IMAX) \<and>
   (\<forall>d. compute qh random this = Inr d \<longrightarrow>
      length (snd (compute_trace qh random this)) < IMAX \<longrightarrow>
      snd (compute_trace qh random this) \<noteq> [] \<and>
      last (snd (compute_trace qh random this)) < wv_ethreshold this)"
proof (cases "initializeDiagram qh random this")
  case (Inl e)
  then have "compute_trace qh random this = (Inl e, [])"
    by (simp add: compute_trace_def)
  then show ?thesis
    by (simp add: compute_def IMAX_def new_WeightedVoronoi_def)
next
  case (Inr diagram)
  then have "compute_trace qh random this = compute_loop qh this 0 diagram"
    by (simp add: compute_trace_def)
  with compute_loop_trace[of qh this 0 diagram] show ?thesis
    by (simp add: compute_def new_WeightedVoronoi_def) (simp add: IMAX_def)
qed

text \<open>
  C8 on a driver without sites, where every iteration has total error 0: with the
  default threshold the first iteration ends the run, and with the threshold 0 the
  run takes all 50 iterations. And on a driver with one site, whose first diagram is
  empty: the first iteration reads the cell of the site and throws.
\<close>

theorem compute_stops_within_IMAX_witness:
  "compute (\<lambda>points. Inr []) (\<lambda>k. Fin 0) (new_WeightedVoronoi [] [] None) = Inr [] \<and>
   snd (compute_trace (\<lambda>points. Inr []) (\<lambda>k. Fin 0) (new_WeightedVoronoi [] [] None)) = [Fin 0] \<and>
   length (snd (compute_trace (\<lambda>points. Inr []) (\<lambda>k. Fin 0) (new_WeightedVoronoi [] [] (Some (Fin 0))))) = 50 \<and>
   compute_trace (\<lambda>points. Inr []) (\<lambda>k. Fin 0)
     (new_WeightedVoronoi [] [\<lparr>p_x = Fin 0, p_y = Fin 0, weight = Fin 1\<rparr>] None) = (Inl TypeError, [])"
proof -
  let ?wv = "new_WeightedVoronoi [] [] None"
  have t: "compute_trace (\<lambda>points. Inr []) (\<lambda>k. Fin 0) ?wv = (Inr [], [Fin 0])"
    by (simp add: compute_trace_def initializeDiagram_def new_WeightedVoronoi_def
        WeightedVoronoi_computePowerDiagram_def adaptPositionsAndWeights_def
        calculateTotalError_def IMAX_def)
  have all: "length (snd (compute_trace (\<lambda>points. Inr []) (\<lambda>k. Fin 0) (new_WeightedVoronoi [] [] (Some (Fin 0))))) = 50"
    by (simp add: compute_trace_def initializeDiagram_def new_WeightedVoronoi_def
        WeightedVoronoi_computePowerDiagram_def adaptPositionsAndWeights_def
        calculateTotalError_def IMAX_def)
  have thrown: "compute_trace (\<lambda>points. Inr []) (\<lambda>k. Fin 0)
     (new_WeightedVoronoi [] [\<lparr>p_x = Fin 0, p_y = Fin 0, weight = Fin 1\<rparr>] None) = (Inl TypeError, [])"
    by (simp add: compute_trace_def initializeDiagram_def new_WeightedVoronoi_def
        WeightedVoronoi_computePowerDiagram_def adaptPositionsAndWeights_def adapt_site_def
        array_get_def computeCentroid_def computePolygonArea_def IMAX_def)
  from t all thrown compute_stops_within_IMAX[of "[]" "[]" "\<lambda>points. Inr []" "\<lambda>k. Fin 0" ?wv]
  show ?thesis by (simp add: compute_def)
qed

end
